theory Spec2Isabelle
  imports Complex_Main "HOL-Library.Word" "HOL-Library.Log_Nat" "HOL-Library.Sublist"
begin

unbundle bit_operations_syntax

section \<open>Data model of the audio ingestion service\<close>

text \<open>
  The service is one Python module, \<^verbatim>\<open>main.py\<close>. A Python \<^verbatim>\<open>str\<close> is a sequence of
  Unicode code points and is modelled as a list of natural numbers, \<^verbatim>\<open>bytes\<close> as
  lists of 8-bit words, the \<^verbatim>\<open>int16\<close> array as a list of 16-bit words, exceptions as
  the left summand of a sum type. The string literals of the program itself (messages,
  reasons) are ASCII and stay \<^typ>\<open>string\<close>s.
\<close>

type_synonym byte = "8 word"
type_synonym int16 = "16 word"
type_synonym code_point = nat
type_synonym py_str = "code_point list"

text \<open>\<^verbatim>\<open>ord\<close> of a character, and a literal as a \<^verbatim>\<open>str\<close>.\<close>

definition py_ord :: "char \<Rightarrow> code_point" where
  "py_ord c = of_char c"

definition py_lit :: "string \<Rightarrow> py_str" where
  "py_lit s = map py_ord s"

text \<open>The two pydantic models.\<close>

record AudioFile =
  file_name :: py_str
  encoded_audio :: py_str

record AudioPayload =
  session_id :: py_str
  timestamp :: py_str
  audio_files :: "AudioFile list"

text \<open>
  The exceptions that can arise. \<^verbatim>\<open>ExceptionCustom\<close> is a subclass of
  \<^verbatim>\<open>HTTPException\<close>; both carry a status code and a detail string.
  \<^verbatim>\<open>binascii.Error\<close> and \<^verbatim>\<open>ValueError\<close> come from the library calls.
\<close>

datatype py_exception =
    ExceptionCustom nat string
  | HTTPException nat string
  | BinasciiError string
  | ValueError string
  | ZeroDivisionError

fun is_HTTPException :: "py_exception \<Rightarrow> bool" where
  "is_HTTPException (ExceptionCustom sc d) = True"
| "is_HTTPException (HTTPException sc d) = True"
| "is_HTTPException e = False"

section \<open>The standard library's base64 codec\<close>

text \<open>
  \<^verbatim>\<open>base64.b64decode(s, validate=v)\<close> is
  \<^verbatim>\<open>binascii.a2b_base64(_bytes_from_decode_data(s), strict_mode=v)\<close> and
  \<^verbatim>\<open>base64.b64encode(b)\<close> is \<^verbatim>\<open>binascii.b2a_base64(b, newline=False)\<close>
  (CPython 3.11). The decoder below follows the loop of \<^verbatim>\<open>binascii.c\<close> state by
  state: \<^verbatim>\<open>quad_pos\<close>, \<^verbatim>\<open>leftchar\<close>, \<^verbatim>\<open>pads\<close>, \<^verbatim>\<open>padding_started\<close>.
\<close>

definition table_a2b_base64 :: "code_point \<Rightarrow> byte option" where
  "table_a2b_base64 c =
     (let n = c in
      if 65 \<le> n \<and> n \<le> 90 then Some (of_nat (n - 65))
      else if 97 \<le> n \<and> n \<le> 122 then Some (of_nat (n - 71))
      else if 48 \<le> n \<and> n \<le> 57 then Some (of_nat (n + 4))
      else if n = 43 then Some 62
      else if n = 47 then Some 63
      else None)"

definition table_b2a_base64 :: "byte \<Rightarrow> code_point" where
  "table_b2a_base64 v =
     (let n = unat v in
      if n < 26 then n + 65
      else if n < 52 then n + 71
      else if n < 62 then n - 4
      else if n = 62 then py_ord CHR ''+''
      else py_ord CHR ''/'')"

definition BASE64_PAD :: code_point where
  "BASE64_PAD = py_ord CHR ''=''"

fun a2b_loop ::
  "bool \<Rightarrow> py_str \<Rightarrow> nat \<Rightarrow> byte \<Rightarrow> nat \<Rightarrow> bool \<Rightarrow> byte list \<Rightarrow> py_exception + byte list"
where
  "a2b_loop strict_mode [] quad_pos leftchar pads padding_started bin_data =
     (if quad_pos \<noteq> 0 then
        (if quad_pos = 1
         then Inl (BinasciiError ''Invalid base64-encoded string'')
         else Inl (BinasciiError ''Incorrect padding''))
      else Inr bin_data)"
| "a2b_loop strict_mode (this_ch # rest) quad_pos leftchar pads padding_started bin_data =
     (if this_ch = BASE64_PAD then
        (if quad_pos \<ge> 2 \<and> quad_pos + (pads + 1) \<ge> 4 then
           (if strict_mode \<and> rest \<noteq> []
            then Inl (BinasciiError ''Excess data after padding'')
            else Inr bin_data)
         else a2b_loop strict_mode rest quad_pos leftchar
                (if quad_pos \<ge> 2 then pads + 1 else pads) True bin_data)
      else
        (case table_a2b_base64 this_ch of
           None \<Rightarrow>
             (if strict_mode then Inl (BinasciiError ''Only base64 data is allowed'')
              else a2b_loop strict_mode rest quad_pos leftchar pads padding_started bin_data)
         | Some v \<Rightarrow>
             (if strict_mode \<and> padding_started
              then Inl (BinasciiError ''Discontinuous padding not allowed'')
              else if quad_pos = 0 then
                a2b_loop strict_mode rest 1 v 0 padding_started bin_data
              else if quad_pos = 1 then
                a2b_loop strict_mode rest 2 (v AND 0x0f) 0 padding_started
                  (bin_data @ [push_bit 2 leftchar OR drop_bit 4 v])
              else if quad_pos = 2 then
                a2b_loop strict_mode rest 3 (v AND 0x03) 0 padding_started
                  (bin_data @ [push_bit 4 leftchar OR drop_bit 2 v])
              else
                a2b_loop strict_mode rest 0 0 0 padding_started
                  (bin_data @ [push_bit 6 leftchar OR v]))))"

definition a2b_base64 :: "py_str \<Rightarrow> bool \<Rightarrow> py_exception + byte list" where
  "a2b_base64 ascii_data strict_mode =
     (if strict_mode \<and> ascii_data \<noteq> [] \<and> hd ascii_data = BASE64_PAD
      then Inl (BinasciiError ''Leading padding not allowed'')
      else a2b_loop strict_mode ascii_data 0 0 0 False [])"

fun b2a_base64 :: "byte list \<Rightarrow> py_str" where
  "b2a_base64 [] = []"
| "b2a_base64 [a] =
     [table_b2a_base64 (drop_bit 2 a),
      table_b2a_base64 (push_bit 4 (a AND 3)),
      BASE64_PAD, BASE64_PAD]"
| "b2a_base64 [a, b] =
     [table_b2a_base64 (drop_bit 2 a),
      table_b2a_base64 (push_bit 4 (a AND 3) OR drop_bit 4 b),
      table_b2a_base64 (push_bit 2 (b AND 0x0f)),
      BASE64_PAD]"
| "b2a_base64 (a # b # c # rest) =
     [table_b2a_base64 (drop_bit 2 a),
      table_b2a_base64 (push_bit 4 (a AND 3) OR drop_bit 4 b),
      table_b2a_base64 (push_bit 2 (b AND 0x0f) OR drop_bit 6 c),
      table_b2a_base64 (c AND 0x3f)] @ b2a_base64 rest"

text \<open>
  \<^verbatim>\<open>_bytes_from_decode_data\<close> encodes a \<^verbatim>\<open>str\<close> argument as ASCII and raises
  \<^verbatim>\<open>ValueError\<close> on any other character.
\<close>

definition bytes_from_decode_data :: "py_str \<Rightarrow> py_exception + py_str" where
  "bytes_from_decode_data s =
     (if list_all (\<lambda>c. c < 128) s then Inr s
      else Inl (ValueError ''string argument should contain only ASCII characters''))"

definition b64decode :: "py_str \<Rightarrow> bool \<Rightarrow> py_exception + byte list" where
  "b64decode s validate =
     (case bytes_from_decode_data s of
        Inl e \<Rightarrow> Inl e
      | Inr s' \<Rightarrow> a2b_base64 s' validate)"

definition b64encode :: "byte list \<Rightarrow> py_str" where
  "b64encode s = b2a_base64 s"

section \<open>The timestamp pattern\<close>

text \<open>
  \<^verbatim>\<open>re.fullmatch\<close> is modelled by regular expressions with Brzozowski derivatives.
  The pattern uses no group reference or look-around, so a full match is membership in
  its language; \<^verbatim>\<open>^\<close> and \<^verbatim>\<open>$\<close> are the two ends of the string under
  \<^verbatim>\<open>fullmatch\<close>. The pattern is a \<^verbatim>\<open>str\<close> compiled without
  \<^verbatim>\<open>re.ASCII\<close>, so \<^verbatim>\<open>\d\<close> matches every Unicode decimal digit (category Nd): in
  Unicode 14.0, which CPython 3.11 carries, these are 66 runs of ten consecutive code
  points, 660 in all, and \<^term>\<open>unicode_decimal_zeros\<close> lists the zero of each run.
\<close>

datatype regex =
    Empty
  | Eps
  | Lit code_point
  | Digit
  | Seq regex regex
  | Alt regex regex
  | Star regex

fun nullable :: "regex \<Rightarrow> bool" where
  "nullable Empty = False"
| "nullable Eps = True"
| "nullable (Lit c) = False"
| "nullable Digit = False"
| "nullable (Seq r s) = (nullable r \<and> nullable s)"
| "nullable (Alt r s) = (nullable r \<or> nullable s)"
| "nullable (Star r) = True"

definition unicode_decimal_zeros :: "code_point list" where
  "unicode_decimal_zeros =
     [48, 1632, 1776, 1984, 2406, 2534, 2662, 2790, 2918, 3046, 3174, 3302, 3430, 3558,
      3664, 3792, 3872, 4160, 4240, 6112, 6160, 6470, 6608, 6784, 6800, 6992, 7088, 7232,
      7248, 42528, 43216, 43264, 43472, 43504, 43600, 44016, 65296, 66720, 68912, 69734,
      69872, 69942, 70096, 70384, 70736, 70864, 71248, 71360, 71472, 71904, 72016, 72784,
      73040, 73120, 92768, 92864, 93008, 120782, 120792, 120802, 120812, 120822, 123200,
      123632, 125264, 130032]"

definition is_digit :: "code_point \<Rightarrow> bool" where
  "is_digit c = list_ex (\<lambda>zero. zero \<le> c \<and> c < zero + 10) unicode_decimal_zeros"

fun deriv :: "code_point \<Rightarrow> regex \<Rightarrow> regex" where
  "deriv c Empty = Empty"
| "deriv c Eps = Empty"
| "deriv c (Lit d) = (if c = d then Eps else Empty)"
| "deriv c Digit = (if is_digit c then Eps else Empty)"
| "deriv c (Seq r s) =
     (if nullable r then Alt (Seq (deriv c r) s) (deriv c s) else Seq (deriv c r) s)"
| "deriv c (Alt r s) = Alt (deriv c r) (deriv c s)"
| "deriv c (Star r) = Seq (deriv c r) (Star r)"

definition fullmatch :: "regex \<Rightarrow> py_str \<Rightarrow> bool" where
  "fullmatch r s = nullable (foldl (\<lambda>r c. deriv c r) r s)"

fun seqs :: "regex list \<Rightarrow> regex" where
  "seqs [] = Eps"
| "seqs (r # rs) = Seq r (seqs rs)"

definition re_optional :: "regex \<Rightarrow> regex" where
  "re_optional r = Alt r Eps"

definition re_plus :: "regex \<Rightarrow> regex" where
  "re_plus r = Seq r (Star r)"

text \<open>\<^verbatim>\<open>^\d{4}-\d{2}-\d{2}T\d{2}:\d{2}:\d{2}(?:\.\d+)?Z$\<close>\<close>

definition timestamp_pattern :: regex where
  "timestamp_pattern =
     seqs [Digit, Digit, Digit, Digit, Lit (py_ord CHR ''-''), Digit, Digit,
           Lit (py_ord CHR ''-''), Digit, Digit, Lit (py_ord CHR ''T''), Digit, Digit,
           Lit (py_ord CHR '':''), Digit, Digit, Lit (py_ord CHR '':''), Digit, Digit,
           re_optional (Seq (Lit (py_ord CHR ''.'')) (re_plus Digit)),
           Lit (py_ord CHR ''Z'')]"

subsection \<open>The language of a pattern and the grammar of the specification\<close>

text \<open>
  The matcher is compared with the usual semantics of regular expressions, and the
  pattern with the grammar as the specification words it:
  \<^verbatim>\<open>YYYY-MM-DDTHH:MM:SS[.fraction]Z\<close>, the fraction optional and of any positive
  number of digits, the final \<^verbatim>\<open>Z\<close> required. A digit is what \<^verbatim>\<open>\d\<close> matches, so
  a timestamp written in Arabic-Indic digits belongs to the grammar as well.
\<close>

inductive_set kleene :: "py_str set \<Rightarrow> py_str set" for A :: "py_str set" where
  kleene_empty: "[] \<in> kleene A"
| kleene_more: "u \<in> A \<Longrightarrow> v \<in> kleene A \<Longrightarrow> u @ v \<in> kleene A"

fun lang :: "regex \<Rightarrow> py_str set" where
  "lang Empty = {}"
| "lang Eps = {[]}"
| "lang (Lit c) = {[c]}"
| "lang Digit = {[c] | c. is_digit c}"
| "lang (Seq r s) = {u @ v | u v. u \<in> lang r \<and> v \<in> lang s}"
| "lang (Alt r s) = lang r \<union> lang s"
| "lang (Star r) = kleene (lang r)"

definition digits :: "nat \<Rightarrow> py_str \<Rightarrow> bool" where
  "digits n ds = (length ds = n \<and> list_all is_digit ds)"

definition timestamp_grammar :: "py_str \<Rightarrow> bool" where
  "timestamp_grammar s =
     (\<exists>year month day hour minute second fraction.
        s = year @ [py_ord CHR ''-''] @ month @ [py_ord CHR ''-''] @ day @
            [py_ord CHR ''T''] @ hour @ [py_ord CHR '':''] @ minute @ [py_ord CHR '':''] @
            second @ fraction @ [py_ord CHR ''Z''] \<and>
        digits 4 year \<and> digits 2 month \<and> digits 2 day \<and>
        digits 2 hour \<and> digits 2 minute \<and> digits 2 second \<and>
        (fraction = [] \<or>
         (\<exists>ds. fraction = [py_ord CHR ''.''] @ ds \<and> ds \<noteq> [] \<and>
               list_all is_digit ds)))"

section \<open>The validators\<close>

definition validate_audio_files_present :: "AudioFile list \<Rightarrow> py_exception + bool" where
  "validate_audio_files_present fs =
     (if fs = [] then Inl (ExceptionCustom 400 ''No audio files provided!'')
      else Inr True)"

definition validate_timestamp :: "py_str \<Rightarrow> py_exception + bool" where
  "validate_timestamp ts =
     (if \<not> fullmatch timestamp_pattern ts
      then Inl (ExceptionCustom 400 ''Invalid timestamp format!'')
      else Inr True)"

text \<open>
  The loop over the files returns \<^verbatim>\<open>True\<close> at the first file whose re-encoding equals
  its text, raises at the first file whose strict decode raises, and goes on to the next
  file otherwise. Falling off the end of the loop returns Python's \<^verbatim>\<open>None\<close>, here
  \<^term>\<open>None\<close>.
\<close>

fun validate_audio_file :: "AudioFile list \<Rightarrow> py_exception + bool option" where
  "validate_audio_file [] = Inr None"
| "validate_audio_file (audio_file # rest) =
     (case b64decode (encoded_audio audio_file) True of
        Inl e \<Rightarrow> Inl (ExceptionCustom 400 ''Invalid base64 encoding file!'')
      | Inr decoded \<Rightarrow>
          (if b64encode decoded = encoded_audio audio_file then Inr (Some True)
           else validate_audio_file rest))"

text \<open>
  \<^verbatim>\<open>a and b and c\<close> evaluates left to right and stops at the first falsy value or the
  first exception; \<^verbatim>\<open>None\<close> is falsy.
\<close>

definition validate_payload :: "AudioPayload \<Rightarrow> py_exception + bool" where
  "validate_payload payload =
     (case validate_audio_files_present (audio_files payload) of
        Inl e \<Rightarrow> Inl e
      | Inr present \<Rightarrow>
          if \<not> present then Inr False
          else (case validate_timestamp (timestamp payload) of
                  Inl e \<Rightarrow> Inl e
                | Inr ts_ok \<Rightarrow>
                    if \<not> ts_ok then Inr False
                    else (case validate_audio_file (audio_files payload) of
                            Inl e \<Rightarrow> Inl e
                          | Inr r \<Rightarrow> if r = Some True then Inr True else Inr False)))"

section \<open>Floats\<close>

text \<open>
  A Python \<^verbatim>\<open>float\<close> is an IEEE binary64 number, modelled as the rational it denotes.
  \<^term>\<open>binary64_of_rat\<close> rounds a rational to the nearest number with a 53-bit
  significand, ties to even. The exponent range is left out: every float of this program
  is zero or lies between \<^verbatim>\<open>1 / 4000\<close> and the length of a \<^verbatim>\<open>bytes\<close> object.
\<close>

type_synonym py_float = rat

definition round_half_even :: "rat \<Rightarrow> int" where
  "round_half_even x =
     (let f = \<lfloor>x\<rfloor>; d = x - of_int f in
      if d < 1 / 2 then f
      else if 1 / 2 < d then f + 1
      else if even f then f else f + 1)"

definition pow2 :: "int \<Rightarrow> rat" where
  "pow2 e = (if 0 \<le> e then 2 ^ nat e else 1 / 2 ^ nat (- e))"

text \<open>For \<open>0 < x\<close>, the \<open>e\<close> with \<open>2 ^ e \<le> x < 2 ^ (e + 1)\<close>.\<close>

definition floor_log2 :: "rat \<Rightarrow> int" where
  "floor_log2 x =
     (let (p, q) = quotient_of x; k = bitlen p - bitlen q in
      if pow2 k \<le> x then k else k - 1)"

definition binary64_of_rat :: "rat \<Rightarrow> py_float" where
  "binary64_of_rat x =
     (if x = 0 then 0
      else (let e = floor_log2 \<bar>x\<bar> - 52 in
            of_int (round_half_even (x / pow2 e)) * pow2 e))"

text \<open>\<^verbatim>\<open>a / b\<close> on two \<^verbatim>\<open>int\<close>s: the correctly rounded quotient.\<close>

definition int_true_div :: "int \<Rightarrow> int \<Rightarrow> py_exception + py_float" where
  "int_true_div a b =
     (if b = 0 then Inl ZeroDivisionError
      else Inr (binary64_of_rat (of_int a / of_int b)))"

text \<open>
  \<^verbatim>\<open>round(x, ndigits)\<close> on a float, for \<open>ndigits \<ge> 0\<close>: the exact value of \<open>x\<close> is
  rounded to \<open>ndigits\<close> decimals, ties to even, and the decimal is converted back to
  the nearest float.
\<close>

definition py_round :: "py_float \<Rightarrow> nat \<Rightarrow> py_float" where
  "py_round x ndigits =
     binary64_of_rat (of_int (round_half_even (x * 10 ^ ndigits)) / 10 ^ ndigits)"

section \<open>The decoder\<close>

text \<open>
  \<^verbatim>\<open>np.frombuffer(buf, dtype=np.int16)\<close> raises \<^verbatim>\<open>ValueError\<close> when the size of the
  buffer is not a multiple of the item size 2, and otherwise reads little-endian pairs
  of bytes; the empty buffer gives the empty array.
\<close>

fun int16_items :: "byte list \<Rightarrow> int16 list" where
  "int16_items (lo # hi # rest) = (push_bit 8 (ucast hi) OR ucast lo) # int16_items rest"
| "int16_items rest = []"

definition frombuffer :: "byte list \<Rightarrow> py_exception + int16 list" where
  "frombuffer buf =
     (if length buf mod 2 \<noteq> 0
      then Inl (ValueError ''buffer size must be a multiple of element size'')
      else Inr (int16_items buf))"

definition calculate_audio_length :: "int16 list \<Rightarrow> int \<Rightarrow> py_exception + py_float" where
  "calculate_audio_length audio_array sample_rate =
     int_true_div (int (length audio_array)) sample_rate"

section \<open>The metadata table\<close>

text \<open>
  The table \<^verbatim>\<open>audio_metadata\<close> of the SQLite file, in insertion order, with the
  \<^verbatim>\<open>AUTOINCREMENT\<close> counter. Whether an \<^verbatim>\<open>INSERT\<close> fails is decided outside the
  program: \<^term>\<open>insert_faults\<close> lists, for the coming insert attempts, whether each
  one raises; once the list is used up every insert succeeds.
\<close>

record audio_metadata_row =
  col_id :: nat
  col_session_id :: py_str
  col_timestamp :: py_str
  col_file_name :: py_str
  col_length_seconds :: py_float

record database =
  audio_metadata :: "audio_metadata_row list"
  sqlite_sequence :: nat
  insert_faults :: "bool list"

definition next_insert_fails :: "database \<Rightarrow> bool" where
  "next_insert_fails db = (insert_faults db \<noteq> [] \<and> hd (insert_faults db))"

definition store_audio_metadata ::
  "py_str \<Rightarrow> py_str \<Rightarrow> py_str \<Rightarrow> py_float \<Rightarrow> database \<Rightarrow> (py_exception + unit) \<times> database"
where
  "store_audio_metadata sid ts fname length_seconds db =
     (if next_insert_fails db then
        (Inl (HTTPException 500 ''Failed to store audio metadata''),
         db\<lparr>insert_faults := tl (insert_faults db)\<rparr>)
      else
        (Inr (),
         db\<lparr>audio_metadata := audio_metadata db @
               [\<lparr>col_id = sqlite_sequence db + 1, col_session_id = sid,
                 col_timestamp = ts, col_file_name = fname,
                 col_length_seconds = length_seconds\<rparr>],
            sqlite_sequence := sqlite_sequence db + 1,
            insert_faults := tl (insert_faults db)\<rparr>))"

section \<open>The endpoint\<close>

record processed_file =
  pf_file_name :: py_str
  pf_length_seconds :: py_float

datatype json =
    StatusMessage string string
  | StatusProcessed string "processed_file list"
  | Detail string
  | PlainText string

record http_response =
  status_code :: nat
  content :: json

definition sample_rate :: int where
  "sample_rate = 4000"

text \<open>
  The body of the \<^verbatim>\<open>try\<close> block for one file. Its first two statements, the
  decoding of the payload and the computation of the length, touch no state and are
  the function \<^term>\<open>decode_audio\<close>; \<^verbatim>\<open>b64decode\<close> is called without
  \<^verbatim>\<open>validate\<close> here.
\<close>

definition decode_audio :: "py_str \<Rightarrow> py_exception + py_float" where
  "decode_audio encoded =
     (case b64decode encoded False of
        Inl e \<Rightarrow> Inl e
      | Inr raw \<Rightarrow>
          (case frombuffer raw of
             Inl e \<Rightarrow> Inl e
           | Inr audio_array \<Rightarrow> calculate_audio_length audio_array sample_rate))"

definition process_file ::
  "AudioPayload \<Rightarrow> AudioFile \<Rightarrow> database \<Rightarrow> (py_exception + processed_file) \<times> database"
where
  "process_file payload audio_file db =
     (case decode_audio (encoded_audio audio_file) of
        Inl e \<Rightarrow> (Inl e, db)
      | Inr length_seconds \<Rightarrow>
          (case store_audio_metadata (session_id payload) (timestamp payload)
                  (file_name audio_file) length_seconds db of
             (Inl e, db') \<Rightarrow> (Inl e, db')
           | (Inr u, db') \<Rightarrow>
               (Inr \<lparr>pf_file_name = file_name audio_file,
                     pf_length_seconds = py_round length_seconds 2\<rparr>, db')))"

text \<open>
  The \<^verbatim>\<open>for\<close> loop: both \<^verbatim>\<open>except\<close> clauses log and \<^verbatim>\<open>continue\<close>.
\<close>

fun process_loop ::
  "AudioPayload \<Rightarrow> AudioFile list \<Rightarrow> processed_file list \<Rightarrow> database
     \<Rightarrow> processed_file list \<times> database"
where
  "process_loop payload [] processed_files db = (processed_files, db)"
| "process_loop payload (audio_file # rest) processed_files db =
     (case process_file payload audio_file db of
        (Inl e, db') \<Rightarrow>
          (if is_HTTPException e then process_loop payload rest processed_files db'
           else process_loop payload rest processed_files db')
      | (Inr entry, db') \<Rightarrow> process_loop payload rest (processed_files @ [entry]) db')"

definition process_audio :: "AudioPayload \<Rightarrow> database \<Rightarrow> (py_exception + json) \<times> database" where
  "process_audio payload db =
     (case validate_payload payload of
        Inl e \<Rightarrow> (Inl e, db)
      | Inr valid \<Rightarrow>
          if \<not> valid then
            (Inr (StatusMessage ''error'' ''Invalid audio file metadata or payload.''), db)
          else (case process_loop payload (audio_files payload) [] db of
                  (processed_files, db') \<Rightarrow>
                    (Inr (StatusProcessed ''success'' processed_files), db')))"

text \<open>
  The route \<^verbatim>\<open>POST /process-audio\<close>: a returned dictionary is sent with status 200;
  an \<^verbatim>\<open>HTTPException\<close> that leaves the handler is answered by the framework with its
  status code and the body \<^verbatim>\<open>{"detail": ...}\<close>, any other exception with status 500.
\<close>

definition post_process_audio :: "AudioPayload \<Rightarrow> database \<Rightarrow> http_response \<times> database" where
  "post_process_audio payload db =
     (case process_audio payload db of
        (Inr body, db') \<Rightarrow> (\<lparr>status_code = 200, content = body\<rparr>, db')
      | (Inl (ExceptionCustom sc d), db') \<Rightarrow> (\<lparr>status_code = sc, content = Detail d\<rparr>, db')
      | (Inl (HTTPException sc d), db') \<Rightarrow> (\<lparr>status_code = sc, content = Detail d\<rparr>, db')
      | (Inl e, db') \<Rightarrow>
          (\<lparr>status_code = 500, content = PlainText ''Internal Server Error''\<rparr>, db'))"

section \<open>What the loop leaves behind\<close>

text \<open>
  The functions of this section are not in the program; they describe the result of
  the loop and are used in the statements about it. \<^term>\<open>decodable\<close> pairs every file
  that \<^term>\<open>decode_audio\<close> accepts with its length, in input order;
  \<^term>\<open>keep_stored\<close> drops the ones whose insert is scheduled to fail;
  \<^term>\<open>numbered_rows\<close> builds their rows with consecutive ids.
\<close>

definition decodable :: "AudioFile list \<Rightarrow> (AudioFile \<times> py_float) list" where
  "decodable fs =
     List.map_filter
       (\<lambda>f. case decode_audio (encoded_audio f) of Inl e \<Rightarrow> None | Inr l \<Rightarrow> Some (f, l)) fs"

fun keep_stored :: "'a list \<Rightarrow> bool list \<Rightarrow> 'a list" where
  "keep_stored [] faults = []"
| "keep_stored (x # xs) [] = x # xs"
| "keep_stored (x # xs) (fault # faults) =
     (if fault then keep_stored xs faults else x # keep_stored xs faults)"

definition stored :: "database \<Rightarrow> AudioFile list \<Rightarrow> (AudioFile \<times> py_float) list" where
  "stored db fs = keep_stored (decodable fs) (insert_faults db)"

definition entry_of :: "AudioFile \<times> py_float \<Rightarrow> processed_file" where
  "entry_of = (\<lambda>(f, l). \<lparr>pf_file_name = file_name f, pf_length_seconds = py_round l 2\<rparr>)"

fun numbered_rows ::
  "AudioPayload \<Rightarrow> nat \<Rightarrow> (AudioFile \<times> py_float) list \<Rightarrow> audio_metadata_row list"
where
  "numbered_rows payload n [] = []"
| "numbered_rows payload n ((f, l) # rest) =
     \<lparr>col_id = n, col_session_id = session_id payload, col_timestamp = timestamp payload,
      col_file_name = file_name f, col_length_seconds = l\<rparr> # numbered_rows payload (Suc n) rest"

definition new_rows :: "AudioPayload \<Rightarrow> database \<Rightarrow> audio_metadata_row list" where
  "new_rows payload db =
     numbered_rows payload (Suc (sqlite_sequence db)) (stored db (audio_files payload))"

definition processed_files_of :: "http_response \<Rightarrow> processed_file list" where
  "processed_files_of r = (case content r of StatusProcessed s pfs \<Rightarrow> pfs | _ \<Rightarrow> [])"

definition without_id :: "audio_metadata_row \<Rightarrow> py_str \<times> py_str \<times> py_str \<times> py_float" where
  "without_id row =
     (col_session_id row, col_timestamp row, col_file_name row, col_length_seconds row)"

section \<open>Example requests\<close>

definition empty_db :: database where
  "empty_db = \<lparr>audio_metadata = [], sqlite_sequence = 0, insert_faults = []\<rparr>"

text \<open>A database whose second insert from now on fails.\<close>

definition db_second_insert_fails :: database where
  "db_second_insert_fails =
     \<lparr>audio_metadata = [], sqlite_sequence = 0, insert_faults = [False, True]\<rparr>"

definition mk_file :: "string \<Rightarrow> string \<Rightarrow> AudioFile" where
  "mk_file name enc = \<lparr>file_name = py_lit name, encoded_audio = py_lit enc\<rparr>"

definition mk_payload :: "string \<Rightarrow> AudioFile list \<Rightarrow> AudioPayload" where
  "mk_payload ts fs =
     \<lparr>session_id = py_lit ''test-session'', timestamp = py_lit ts, audio_files = fs\<rparr>"

text \<open>No file at all, and a timestamp that is malformed as well.\<close>

definition payload_no_files :: AudioPayload where
  "payload_no_files = mk_payload ''yesterday'' []"

text \<open>A well-formed file under a timestamp without the final \<^verbatim>\<open>Z\<close>.\<close>

definition payload_bad_timestamp :: AudioPayload where
  "payload_bad_timestamp = mk_payload ''2025-01-02T12:00:00'' [mk_file ''a.wav'' ''QUJDRA=='']"

text \<open>
  \<^verbatim>\<open>QR==\<close> decodes to the byte \<^verbatim>\<open>A\<close>, whose encoding is \<^verbatim>\<open>QQ==\<close>: the four spare
  bits of the second character are not zero.
\<close>

definition payload_non_canonical :: AudioPayload where
  "payload_non_canonical = mk_payload ''2025-01-02T12:00:00Z'' [mk_file ''a.wav'' ''QR=='']"

text \<open>A canonical first file followed by text that is not base64.\<close>

definition payload_valid_then_garbage :: AudioPayload where
  "payload_valid_then_garbage =
     mk_payload ''2025-01-02T12:00:00Z'' [mk_file ''a.wav'' ''QUJDRA=='', mk_file ''b.wav'' ''!!!'']"

definition payload_garbage :: AudioPayload where
  "payload_garbage = mk_payload ''2025-01-02T12:00:00Z'' [mk_file ''b.wav'' ''!!!'']"

text \<open>\<^verbatim>\<open>QQ==\<close> is the canonical encoding of the single byte \<^verbatim>\<open>A\<close>.\<close>

definition file_one_byte :: AudioFile where
  "file_one_byte = mk_file ''odd.wav'' ''QQ==''"

definition payload_odd :: AudioPayload where
  "payload_odd = mk_payload ''2025-01-02T12:00:00Z'' [file_one_byte]"

text \<open>
  Four bytes (two samples), two bytes (one sample) and one byte, in this order.
\<close>

definition payload_three :: AudioPayload where
  "payload_three =
     mk_payload ''2025-01-02T12:00:00Z''
       [mk_file ''a.wav'' ''QUJDRA=='', mk_file ''b.wav'' ''QUI='', file_one_byte]"

definition payload_two :: AudioPayload where
  "payload_two =
     mk_payload ''2025-01-02T12:00:00Z'' [mk_file ''a.wav'' ''QUJDRA=='', mk_file ''b.wav'' ''QUI='']"

text \<open>Forty zero bytes: twenty samples, 0.005 seconds.\<close>

definition payload_twenty_samples :: AudioPayload where
  "payload_twenty_samples =
     mk_payload ''2025-01-02T12:00:00Z''
       [mk_file ''clip.wav'' ''AAAAAAAAAAAAAAAAAAAAAAAAAAAAAAAAAAAAAAAAAAAAAAAAAAAAAA=='']"

text \<open>
  Two files under one name: two samples, then four samples
  (\<^verbatim>\<open>QUJDREVGR0g=\<close> encodes eight bytes).
\<close>

definition payload_same_name :: AudioPayload where
  "payload_same_name =
     mk_payload ''2025-01-02T12:00:00Z''
       [mk_file ''a.wav'' ''QUJDRA=='', mk_file ''a.wav'' ''QUJDREVGR0g='']"

text \<open>The year 2025 in Arabic-Indic digits (U+0660 to U+0669), the rest in ASCII.\<close>

definition timestamp_arabic_indic :: py_str where
  "timestamp_arabic_indic = [1634, 1632, 1634, 1637] @ py_lit ''-01-02T12:00:00Z''"

text \<open>The empty string encodes the empty payload.\<close>

definition file_empty :: AudioFile where
  "file_empty = mk_file ''silence.wav'' ''''"

section \<open>The matcher and the grammar\<close>

text \<open>For an ASCII character the table of digits need not be searched.\<close>

lemma is_digit_code [code]:
  "is_digit c =
     (if c < 128 then 48 \<le> c \<and> c \<le> 57
      else list_ex (\<lambda>zero. zero \<le> c \<and> c < zero + 10) unicode_decimal_zeros)"
  by (auto simp: is_digit_def unicode_decimal_zeros_def)

lemma nullable_lang: "nullable r \<longleftrightarrow> [] \<in> lang r"
  by (induction r) (auto intro: kleene_empty)

lemma kleene_Cons_split:
  assumes "x \<in> kleene A" and "x = c # w"
  shows "\<exists>u v. w = u @ v \<and> c # u \<in> A \<and> v \<in> kleene A"
  using assms
proof (induction arbitrary: w rule: kleene.induct)
  case kleene_empty
  then show ?case by simp
next
  case (kleene_more u v)
  show ?case
  proof (cases u)
    case Nil
    with kleene_more show ?thesis by simp
  next
    case (Cons a u')
    with kleene_more.prems have "a = c" "w = u' @ v" by simp_all
    with Cons kleene_more.hyps show ?thesis by blast
  qed
qed

lemma kleene_Cons:
  "c # w \<in> kleene A \<longleftrightarrow> (\<exists>u v. w = u @ v \<and> c # u \<in> A \<and> v \<in> kleene A)"
proof
  assume "c # w \<in> kleene A"
  then show "\<exists>u v. w = u @ v \<and> c # u \<in> A \<and> v \<in> kleene A"
    by (rule kleene_Cons_split) simp
next
  assume "\<exists>u v. w = u @ v \<and> c # u \<in> A \<and> v \<in> kleene A"
  then obtain u v where "w = u @ v" "c # u \<in> A" "v \<in> kleene A" by blast
  then show "c # w \<in> kleene A" using kleene_more [of "c # u" A v] by simp
qed

lemma lang_deriv: "lang (deriv c r) = {w. c # w \<in> lang r}"
proof (induction r)
  case (Seq r s)
  then show ?case
    by (auto simp: nullable_lang Cons_eq_append_conv) 
next
  case (Star r)
  then show ?case by (auto simp: kleene_Cons)
qed auto

lemma fullmatch_lang: "fullmatch r s \<longleftrightarrow> s \<in> lang r"
  unfolding fullmatch_def
  by (induction s arbitrary: r) (simp_all add: nullable_lang lang_deriv)

lemma lang_Lit_then: "w \<in> lang (Seq (Lit c) r) \<longleftrightarrow> (\<exists>w'. w = c # w' \<and> w' \<in> lang r)"
  by auto

lemma lang_Digit_then:
  "w \<in> lang (Seq Digit r) \<longleftrightarrow> (\<exists>c w'. w = c # w' \<and> is_digit c \<and> w' \<in> lang r)"
proof
  assume "w \<in> lang (Seq Digit r)"
  then show "\<exists>c w'. w = c # w' \<and> is_digit c \<and> w' \<in> lang r" by auto
next
  assume "\<exists>c w'. w = c # w' \<and> is_digit c \<and> w' \<in> lang r"
  then obtain c w' where "w = [c] @ w'" "[c] \<in> lang Digit" "w' \<in> lang r" by auto
  then show "w \<in> lang (Seq Digit r)" unfolding lang.simps(5) by blast
qed

lemma digits_0 [simp]: "digits 0 ds \<longleftrightarrow> ds = []"
  by (auto simp: digits_def)

lemma digits_Suc: "digits (Suc n) ds \<longleftrightarrow> (\<exists>c ds'. ds = c # ds' \<and> is_digit c \<and> digits n ds')"
  by (cases ds) (auto simp: digits_def)

lemma lang_2digits_then:
  "w \<in> lang (Seq Digit (Seq Digit r)) \<longleftrightarrow> (\<exists>ds w'. w = ds @ w' \<and> digits 2 ds \<and> w' \<in> lang r)"
  (is "?L \<longleftrightarrow> ?R")
proof
  assume ?L
  then obtain a b w' where "w = [a, b] @ w'" "is_digit a" "is_digit b" "w' \<in> lang r"
    by (auto simp only: lang_Digit_then append.simps)
  moreover from this have "digits 2 [a, b]" by (simp add: digits_def)
  ultimately show ?R by blast
next
  assume ?R
  then obtain ds w' where w: "w = ds @ w'" and d: "digits 2 ds" and r: "w' \<in> lang r" by blast
  from d obtain a b where "ds = [a, b]" "is_digit a" "is_digit b"
    by (auto simp: numeral_2_eq_2 digits_Suc)
  with w r show ?L by (simp only: lang_Digit_then append.simps) blast
qed

lemma lang_4digits_then:
  "w \<in> lang (Seq Digit (Seq Digit (Seq Digit (Seq Digit r)))) \<longleftrightarrow>
   (\<exists>ds w'. w = ds @ w' \<and> digits 4 ds \<and> w' \<in> lang r)"
  (is "?L \<longleftrightarrow> ?R")
proof
  assume ?L
  then obtain a b c d w' where "w = [a, b, c, d] @ w'" "is_digit a" "is_digit b"
    "is_digit c" "is_digit d" "w' \<in> lang r"
    by (auto simp only: lang_Digit_then append.simps)
  moreover from this have "digits 4 [a, b, c, d]" by (simp add: digits_def)
  ultimately show ?R by blast
next
  assume ?R
  then obtain ds w' where w: "w = ds @ w'" and d: "digits 4 ds" and r: "w' \<in> lang r" by blast
  from d obtain a b c e where "ds = [a, b, c, e]" "is_digit a" "is_digit b" "is_digit c" "is_digit e"
    by (auto simp: eval_nat_numeral digits_Suc)
  with w r show ?L by (simp only: lang_Digit_then append.simps) blast
qed

lemma kleene_Digit: "kleene (lang Digit) = {ds. list_all is_digit ds}"
proof (intro equalityI subsetI)
  fix x assume "x \<in> kleene (lang Digit)"
  then show "x \<in> {ds. list_all is_digit ds}"
    by (induction rule: kleene.induct) auto
next
  fix x assume "x \<in> {ds. list_all is_digit ds}"
  then have "list_all is_digit x" by simp
  then show "x \<in> kleene (lang Digit)"
  proof (induction x)
    case Nil
    show ?case by (rule kleene_empty)
  next
    case (Cons c x)
    then have "[c] \<in> lang Digit" "x \<in> kleene (lang Digit)" by auto
    from kleene_more [OF this] show ?case by simp
  qed
qed

lemma lang_fraction:
  "w \<in> lang (Seq (re_optional (Seq (Lit (py_ord CHR ''.'')) (re_plus Digit)))
                (Seq (Lit (py_ord CHR ''Z'')) Eps)) \<longleftrightarrow>
   (\<exists>fraction. w = fraction @ [py_ord CHR ''Z''] \<and>
      (fraction = [] \<or>
       (\<exists>ds. fraction = [py_ord CHR ''.''] @ ds \<and> ds \<noteq> [] \<and> list_all is_digit ds)))"
  (is "?L \<longleftrightarrow> ?R")
proof -
  have plus: "lang (re_plus Digit) = {ds. ds \<noteq> [] \<and> list_all is_digit ds}"
  proof -
    have "ds \<in> lang (re_plus Digit) \<longleftrightarrow> ds \<noteq> [] \<and> list_all is_digit ds" for ds
      unfolding re_plus_def lang_Digit_then lang.simps(7) kleene_Digit
      by (cases ds) auto
    then show ?thesis by blast
  qed
  have opt: "lang (re_optional (Seq (Lit (py_ord CHR ''.'')) (re_plus Digit))) =
               {fraction. fraction = [] \<or>
                  (\<exists>ds. fraction = [py_ord CHR ''.''] @ ds \<and> ds \<noteq> [] \<and>
                        list_all is_digit ds)}"
    unfolding re_optional_def lang.simps(6) lang.simps(5) plus by auto
  have z: "lang (Seq (Lit (py_ord CHR ''Z'')) Eps) = {[py_ord CHR ''Z'']}" by auto
  show ?thesis unfolding lang.simps(5) [of "re_optional _"] opt z by auto
qed

lemma lang_timestamp_pattern: "s \<in> lang timestamp_pattern \<longleftrightarrow> timestamp_grammar s"
  unfolding timestamp_pattern_def seqs.simps timestamp_grammar_def
  apply (simp only: lang_4digits_then)
  apply (simp only: lang_Lit_then lang_2digits_then)
  apply (simp only: lang_fraction)
  apply (simp only: append.simps append_assoc)
  apply (rule iffI)
   apply (elim exE conjE)
   apply hypsubst
   apply (intro exI conjI)
          apply (rule refl)
         apply assumption+
  apply (elim exE conjE)
  apply hypsubst
  apply (intro exI conjI)
                      apply (rule refl | assumption)+
  done

lemma fullmatch_timestamp_grammar:
  "fullmatch timestamp_pattern s \<longleftrightarrow> timestamp_grammar s"
  by (simp only: fullmatch_lang lang_timestamp_pattern)

text \<open>
  A timestamp whose year is written in Arabic-Indic digits matches the pattern, as it
  does in the program.
\<close>

lemma arabic_indic_timestamp_accepted:
  "fullmatch timestamp_pattern timestamp_arabic_indic \<and>
   timestamp_grammar timestamp_arabic_indic \<and>
   validate_timestamp timestamp_arabic_indic = Inr True"
proof -
  have "fullmatch timestamp_pattern timestamp_arabic_indic"
    by (simp add: timestamp_arabic_indic_def fullmatch_def timestamp_pattern_def
        re_optional_def re_plus_def py_lit_def py_ord_def is_digit_def
        unicode_decimal_zeros_def)
  then show ?thesis
    by (simp add: fullmatch_timestamp_grammar [symmetric] validate_timestamp_def)
qed

section \<open>Validation\<close>

lemma validate_audio_file_raises:
  "validate_audio_file fs = Inl e \<Longrightarrow> e = ExceptionCustom 400 ''Invalid base64 encoding file!''"
  by (induction fs) (auto split: sum.splits if_splits)

lemma validate_audio_file_returns:
  "validate_audio_file fs = Inr r \<Longrightarrow> r = None \<or> r = Some True"
  by (induction fs) (auto split: sum.splits if_splits)

lemma validate_payload_unfold:
  "validate_payload payload =
     (if audio_files payload = [] then Inl (ExceptionCustom 400 ''No audio files provided!'')
      else if \<not> fullmatch timestamp_pattern (timestamp payload)
        then Inl (ExceptionCustom 400 ''Invalid timestamp format!'')
      else (case validate_audio_file (audio_files payload) of
              Inl e \<Rightarrow> Inl (ExceptionCustom 400 ''Invalid base64 encoding file!'')
            | Inr r \<Rightarrow> Inr (r = Some True)))"
  by (auto simp: validate_payload_def validate_audio_files_present_def validate_timestamp_def
      split: sum.splits dest: validate_audio_file_raises)

lemma process_audio_rejected:
  "validate_payload payload = Inl e \<Longrightarrow> process_audio payload db = (Inl e, db)"
  by (simp add: process_audio_def)

lemma process_audio_invalid:
  "validate_payload payload = Inr False \<Longrightarrow>
   process_audio payload db =
     (Inr (StatusMessage ''error'' ''Invalid audio file metadata or payload.''), db)"
  by (simp add: process_audio_def)

lemma post_process_audio_rejected:
  "validate_payload payload = Inl (ExceptionCustom sc d) \<Longrightarrow>
   post_process_audio payload db = (\<lparr>status_code = sc, content = Detail d\<rparr>, db)"
  by (simp add: post_process_audio_def process_audio_rejected)

lemma post_process_audio_invalid:
  "validate_payload payload = Inr False \<Longrightarrow>
   post_process_audio payload db =
     (\<lparr>status_code = 200,
       content = StatusMessage ''error'' ''Invalid audio file metadata or payload.''\<rparr>, db)"
  by (simp add: post_process_audio_def process_audio_invalid)

text \<open>
  C7. A batch with an empty \<^verbatim>\<open>audio_files\<close> list is answered with the rejection
  "No audio files provided!" (status 400), whatever its session id and timestamp are:
  the presence check comes first, and neither the timestamp nor any base64 text is looked
  at. The table is left as it was.
\<close>

theorem empty_audio_files_rejected:
  "audio_files payload = [] \<Longrightarrow>
   validate_payload payload = Inl (ExceptionCustom 400 ''No audio files provided!'') \<and>
   post_process_audio payload db =
     (\<lparr>status_code = 400, content = Detail ''No audio files provided!''\<rparr>, db)"
  by (simp add: validate_payload_unfold post_process_audio_rejected)

theorem empty_audio_files_rejected_witness:
  "audio_files payload_no_files = [] \<and>
   \<not> fullmatch timestamp_pattern (timestamp payload_no_files) \<and>
   post_process_audio payload_no_files empty_db =
     (\<lparr>status_code = 400, content = Detail ''No audio files provided!''\<rparr>, empty_db)"
proof -
  have h: "audio_files payload_no_files = []"
    by (simp add: payload_no_files_def mk_payload_def)
  have t: "\<not> fullmatch timestamp_pattern (timestamp payload_no_files)"
    unfolding payload_no_files_def mk_payload_def by code_simp
  from empty_audio_files_rejected [OF h, of empty_db] h t show ?thesis by simp
qed

text \<open>
  C6. A batch with at least one file whose timestamp does not fully match the grammar
  \<^verbatim>\<open>YYYY-MM-DDTHH:MM:SS[.fraction]Z\<close>, that is the pattern
  \<^verbatim>\<open>^\d{4}-\d{2}-\d{2}T\d{2}:\d{2}:\d{2}(?:\.\d+)?Z$\<close> as \<^verbatim>\<open>re.fullmatch\<close> reads it
  on a \<^verbatim>\<open>str\<close> (a digit is any Unicode decimal digit), is answered with the
  rejection "Invalid timestamp format!" (status 400), whatever its files contain. The
  timestamp ranges over all sequences of code points.
\<close>

theorem invalid_timestamp_rejected:
  "audio_files payload \<noteq> [] \<Longrightarrow>
   \<not> timestamp_grammar (timestamp payload) \<Longrightarrow>
   \<not> fullmatch timestamp_pattern (timestamp payload) \<and>
   validate_payload payload = Inl (ExceptionCustom 400 ''Invalid timestamp format!'') \<and>
   post_process_audio payload db =
     (\<lparr>status_code = 400, content = Detail ''Invalid timestamp format!''\<rparr>, db)"
  by (simp add: validate_payload_unfold post_process_audio_rejected fullmatch_timestamp_grammar)

theorem invalid_timestamp_rejected_witness:
  "audio_files payload_bad_timestamp \<noteq> [] \<and>
   \<not> timestamp_grammar (timestamp payload_bad_timestamp) \<and>
   validate_audio_file (audio_files payload_bad_timestamp) = Inr (Some True) \<and>
   post_process_audio payload_bad_timestamp empty_db =
     (\<lparr>status_code = 400, content = Detail ''Invalid timestamp format!''\<rparr>, empty_db)"
proof -
  have h: "audio_files payload_bad_timestamp \<noteq> []"
    by (simp add: payload_bad_timestamp_def mk_payload_def)
  have "\<not> fullmatch timestamp_pattern (timestamp payload_bad_timestamp)"
    unfolding payload_bad_timestamp_def mk_payload_def by code_simp
  then have t: "\<not> timestamp_grammar (timestamp payload_bad_timestamp)"
    by (simp add: fullmatch_timestamp_grammar)
  have v: "validate_audio_file (audio_files payload_bad_timestamp) = Inr (Some True)"
    unfolding payload_bad_timestamp_def mk_payload_def mk_file_def by code_simp
  from invalid_timestamp_rejected [OF h t, of empty_db] h t v show ?thesis by simp
qed

lemma post_process_audio_not_accepted:
  "validate_payload payload \<noteq> Inr True \<Longrightarrow>
   snd (post_process_audio payload db) = db \<and>
   processed_files_of (fst (post_process_audio payload db)) = []"
  by (cases "validate_payload payload")
     (auto simp: post_process_audio_def process_audio_def processed_files_of_def
        split: py_exception.splits)

text \<open>
  C9. A batch that does not pass validation leaves the database exactly as it was: no
  row is written and no insert is even attempted, and the answer carries no list of
  processed files.
\<close>

theorem rejected_batch_leaves_database_unchanged:
  "validate_payload payload \<noteq> Inr True \<Longrightarrow>
   snd (process_audio payload db) = db \<and>
   snd (post_process_audio payload db) = db \<and>
   (\<forall>s pfs. content (fst (post_process_audio payload db)) \<noteq> StatusProcessed s pfs)"
  by (cases "validate_payload payload")
     (auto simp: post_process_audio_def process_audio_def split: py_exception.splits)

theorem rejected_batch_leaves_database_unchanged_witness:
  "validate_payload payload_garbage \<noteq> Inr True \<and>
   snd (post_process_audio payload_garbage empty_db) = empty_db"
proof -
  have h: "validate_payload payload_garbage \<noteq> Inr True"
    unfolding payload_garbage_def mk_payload_def mk_file_def by code_simp
  from rejected_batch_leaves_database_unchanged [OF h, of empty_db] h show ?thesis by simp
qed

text \<open>
  C1. The claim is that validation succeeds only if every file is canonical base64 and
  that any other file makes the batch fail with "Invalid base64 encoding file!". The
  loop of \<^verbatim>\<open>validate_audio_file\<close> returns at the first canonical file: the text
  \<^verbatim>\<open>!!!\<close> is refused by the strict decoder and rejected when it stands alone, and
  the same file after a canonical one is never looked at, so that batch is valid and
  is answered with status 200 (the unchecked file is then decoded leniently, to an
  empty payload, and listed among the processed files).
\<close>

theorem validation_stops_at_first_canonical_file:
  "b64decode (py_lit ''!!!'') True = Inl (BinasciiError ''Only base64 data is allowed'') \<and>
   validate_audio_file (audio_files payload_garbage) =
     Inl (ExceptionCustom 400 ''Invalid base64 encoding file!'') \<and>
   validate_audio_file (audio_files payload_valid_then_garbage) = Inr (Some True) \<and>
   validate_payload payload_valid_then_garbage = Inr True \<and>
   status_code (fst (post_process_audio payload_valid_then_garbage empty_db)) = 200 \<and>
   map pf_file_name
     (processed_files_of (fst (post_process_audio payload_valid_then_garbage empty_db))) =
     [py_lit ''a.wav'', py_lit ''b.wav'']"
  unfolding payload_garbage_def payload_valid_then_garbage_def mk_payload_def mk_file_def
    empty_db_def
  by code_simp

text \<open>
  C2, as claimed: every batch that fails validation is answered with status 400 and one
  of the three reasons. The batch \<^term>\<open>payload_non_canonical\<close> fails validation
  without any validator raising, and is answered with status 200 and another message.
\<close>

theorem non_canonical_batch_answer:
  "validate_payload payload_non_canonical \<noteq> Inr True \<and>
   validate_payload payload_non_canonical = Inr False \<and>
   b64decode (py_lit ''QR=='') True = Inr [65] \<and> b64encode [65] = py_lit ''QQ=='' \<and>
   fst (post_process_audio payload_non_canonical empty_db) =
     \<lparr>status_code = 200,
       content = StatusMessage ''error'' ''Invalid audio file metadata or payload.''\<rparr>"
  unfolding payload_non_canonical_def mk_payload_def mk_file_def empty_db_def
  by code_simp

text \<open>
  C2, amended. A batch that fails validation is answered in one of two ways. Either a
  validator raises, and the answer has status 400 and a detail that is one of the three
  reasons; or \<^verbatim>\<open>validate_payload\<close> returns \<^verbatim>\<open>False\<close>, and the answer is the
  dictionary with status "error" and the message "Invalid audio file metadata or
  payload.", sent with status 200.
\<close>

theorem validation_failure_responses:
  assumes "validate_payload payload \<noteq> Inr True"
  shows "(\<exists>d \<in> {''No audio files provided!'', ''Invalid timestamp format!'',
              ''Invalid base64 encoding file!''}.
            validate_payload payload = Inl (ExceptionCustom 400 d) \<and>
            fst (post_process_audio payload db) = \<lparr>status_code = 400, content = Detail d\<rparr>) \<or>
         (validate_payload payload = Inr False \<and>
          fst (post_process_audio payload db) =
            \<lparr>status_code = 200,
              content = StatusMessage ''error'' ''Invalid audio file metadata or payload.''\<rparr>)"
proof (cases "validate_payload payload")
  case (Inl e)
  then obtain d where d: "e = ExceptionCustom 400 d"
    "d \<in> {''No audio files provided!'', ''Invalid timestamp format!'',
              ''Invalid base64 encoding file!''}"
    by (auto simp: validate_payload_unfold split: if_splits sum.splits)
  with Inl show ?thesis by (simp add: post_process_audio_rejected)
next
  case (Inr b)
  with assms have "b = False" by auto
  with Inr show ?thesis by (simp add: post_process_audio_invalid)
qed

theorem validation_failure_responses_witness:
  "validate_payload payload_garbage \<noteq> Inr True \<and>
   fst (post_process_audio payload_garbage empty_db) =
     \<lparr>status_code = 400, content = Detail ''Invalid base64 encoding file!''\<rparr>"
proof -
  have v: "validate_payload payload_garbage =
             Inl (ExceptionCustom 400 ''Invalid base64 encoding file!'')"
    unfolding payload_garbage_def mk_payload_def mk_file_def by code_simp
  then have h: "validate_payload payload_garbage \<noteq> Inr True" by simp
  from validation_failure_responses [OF h, of empty_db] v h show ?thesis by auto
qed

section \<open>The loop over the files\<close>

lemma keep_stored_Nil [simp]: "keep_stored xs [] = xs"
  by (cases xs) simp_all

lemma decodable_Nil [simp]: "decodable [] = []"
  by (simp add: decodable_def map_filter_simps)

lemma decodable_Cons:
  "decodable (f # fs) =
     (case decode_audio (encoded_audio f) of
        Inl e \<Rightarrow> decodable fs | Inr l \<Rightarrow> (f, l) # decodable fs)"
  by (simp add: decodable_def map_filter_simps split: sum.splits)

lemma process_file_undecodable:
  "decode_audio (encoded_audio f) = Inl e \<Longrightarrow> process_file payload f db = (Inl e, db)"
  by (simp add: process_file_def)

lemma process_file_fault:
  "decode_audio (encoded_audio f) = Inr l \<Longrightarrow> next_insert_fails db \<Longrightarrow>
   process_file payload f db =
     (Inl (HTTPException 500 ''Failed to store audio metadata''),
      db\<lparr>insert_faults := tl (insert_faults db)\<rparr>)"
  by (simp add: process_file_def store_audio_metadata_def)

lemma process_file_stored:
  "decode_audio (encoded_audio f) = Inr l \<Longrightarrow> \<not> next_insert_fails db \<Longrightarrow>
   process_file payload f db =
     (Inr (entry_of (f, l)),
      db\<lparr>audio_metadata := audio_metadata db @ numbered_rows payload (Suc (sqlite_sequence db)) [(f, l)],
         sqlite_sequence := Suc (sqlite_sequence db),
         insert_faults := tl (insert_faults db)\<rparr>)"
  by (simp add: process_file_def store_audio_metadata_def entry_of_def)

lemma process_loop_char:
  "process_loop payload fs acc db =
     (acc @ map entry_of (stored db fs),
      db\<lparr>audio_metadata := audio_metadata db @
            numbered_rows payload (Suc (sqlite_sequence db)) (stored db fs),
         sqlite_sequence := sqlite_sequence db + length (stored db fs),
         insert_faults := drop (length (decodable fs)) (insert_faults db)\<rparr>)"
proof (induction fs arbitrary: acc db)
  case Nil
  then show ?case by (simp add: stored_def)
next
  case (Cons f fs)
  show ?case
  proof (cases "decode_audio (encoded_audio f)")
    case (Inl e)
    then show ?thesis
      by (simp add: process_file_undecodable Cons.IH stored_def decodable_Cons)
  next
    case (Inr l)
    show ?thesis
    proof (cases "insert_faults db")
      case Nil
      then have nf: "\<not> next_insert_fails db" by (simp add: next_insert_fails_def)
      show ?thesis
        using Nil by (simp add: process_file_stored [OF Inr nf] Cons.IH stored_def decodable_Cons Inr)
    next
      case (Cons fault faults')
      show ?thesis
      proof (cases fault)
        case True
        then have nf: "next_insert_fails db" using Cons by (simp add: next_insert_fails_def)
        show ?thesis
          using Cons True
          by (simp add: process_file_fault [OF Inr nf] Cons.IH stored_def decodable_Cons Inr)
      next
        case False
        then have nf: "\<not> next_insert_fails db" using Cons by (simp add: next_insert_fails_def)
        show ?thesis
          using Cons False
          by (simp add: process_file_stored [OF Inr nf] Cons.IH stored_def decodable_Cons Inr)
      qed
    qed
  qed
qed

lemma post_process_audio_accepted:
  "validate_payload payload = Inr True \<Longrightarrow>
   post_process_audio payload db =
     (\<lparr>status_code = 200,
       content = StatusProcessed ''success'' (map entry_of (stored db (audio_files payload)))\<rparr>,
      db\<lparr>audio_metadata := audio_metadata db @ new_rows payload db,
         sqlite_sequence := sqlite_sequence db + length (stored db (audio_files payload)),
         insert_faults := drop (length (decodable (audio_files payload))) (insert_faults db)\<rparr>)"
  by (simp add: post_process_audio_def process_audio_def process_loop_char new_rows_def)

lemma subseq_keep_stored: "subseq (keep_stored xs faults) xs"
  by (induction xs faults rule: keep_stored.induct) auto

lemma subseq_decodable: "subseq (map fst (decodable fs)) fs"
  by (induction fs) (auto simp: decodable_Cons split: sum.splits)

lemma decodable_sound:
  "(f, l) \<in> set (decodable fs) \<Longrightarrow> f \<in> set fs \<and> decode_audio (encoded_audio f) = Inr l"
  by (induction fs) (auto simp: decodable_Cons split: sum.splits)

lemma decodable_none:
  "(\<forall>f \<in> set fs. isl (decode_audio (encoded_audio f))) \<Longrightarrow> decodable fs = []"
  by (induction fs) (auto simp: decodable_Cons split: sum.splits)

lemma length_int16_items: "length (int16_items buf) = length buf div 2"
  by (induction buf rule: int16_items.induct) simp_all

lemma decode_audio_Inr:
  assumes "decode_audio enc = Inr l"
  shows "\<exists>raw samples. b64decode enc False = Inr raw \<and> frombuffer raw = Inr samples \<and>
           length raw = 2 * length samples \<and>
           l = binary64_of_rat (of_nat (length samples) / 4000)"
proof -
  from assms obtain raw where raw: "b64decode enc False = Inr raw"
    by (auto simp: decode_audio_def split: sum.splits)
  with assms obtain samples where samples: "frombuffer raw = Inr samples"
    by (auto simp: decode_audio_def split: sum.splits)
  then have ev: "even (length raw)" and items: "samples = int16_items raw"
    by (auto simp: frombuffer_def split: if_splits)
  then have len: "length raw = 2 * length samples"
    by (auto simp: length_int16_items)
  from assms raw samples have "l = binary64_of_rat (of_nat (length samples) / 4000)"
    by (simp add: decode_audio_def calculate_audio_length_def int_true_div_def sample_rate_def)
  with raw samples len show ?thesis by blast
qed

lemma decode_audio_odd:
  "b64decode enc False = Inr raw \<Longrightarrow> odd (length raw) \<Longrightarrow>
   decode_audio enc = Inl (ValueError ''buffer size must be a multiple of element size'')"
  by (simp add: decode_audio_def frombuffer_def odd_iff_mod_2_eq_one)

lemma binary64_of_rat_0 [simp]: "binary64_of_rat 0 = 0"
  by (simp add: binary64_of_rat_def)

lemma py_round_0 [simp]: "py_round 0 n = 0"
  by (simp add: py_round_def round_half_even_def)

lemma decode_audio_empty:
  "b64decode enc False = Inr [] \<Longrightarrow> decode_audio enc = Inr 0"
  by (simp add: decode_audio_def frombuffer_def calculate_audio_length_def int_true_div_def
      sample_rate_def)

lemma set_keep_stored: "set (keep_stored xs faults) \<subseteq> set xs"
  by (induction xs faults rule: keep_stored.induct) auto

lemma stored_sound:
  "(f, l) \<in> set (stored db fs) \<Longrightarrow> f \<in> set fs \<and> decode_audio (encoded_audio f) = Inr l"
  using set_keep_stored [of "decodable fs" "insert_faults db"] decodable_sound [of f l fs]
  by (auto simp: stored_def)

lemma pf_file_name_entry_of [simp]: "pf_file_name (entry_of x) = file_name (fst x)"
  by (cases x) (simp add: entry_of_def)

lemma pf_length_seconds_entry_of [simp]: "pf_length_seconds (entry_of x) = py_round (snd x) 2"
  by (cases x) (simp add: entry_of_def)

lemma length_numbered_rows [simp]: "length (numbered_rows payload n st) = length st"
  by (induction payload n st rule: numbered_rows.induct) simp_all

lemma rows_ids: "map col_id (numbered_rows payload n st) = [n..<n + length st]"
  by (induction payload n st rule: numbered_rows.induct) (simp_all add: upt_rec)

lemma rows_without_id:
  "map without_id (numbered_rows payload n st) =
   map (\<lambda>x. (session_id payload, timestamp payload, file_name (fst x), snd x)) st"
  by (induction payload n st rule: numbered_rows.induct) (simp_all add: without_id_def)

lemma rows_names:
  "map col_file_name (numbered_rows payload n st) = map (\<lambda>x. file_name (fst x)) st"
  by (induction payload n st rule: numbered_rows.induct) simp_all

lemma rows_fields:
  "row \<in> set (numbered_rows payload n st) \<Longrightarrow>
   col_session_id row = session_id payload \<and> col_timestamp row = timestamp payload \<and>
   (\<exists>x \<in> set st. col_file_name row = file_name (fst x))"
  by (induction payload n st rule: numbered_rows.induct) auto

section \<open>Accepted batches\<close>

text \<open>
  C3. A batch that passes validation is always answered with status 200 and
  \<^verbatim>\<open>{"status": "success", "processed_files": [...]}\<close>. The list holds one entry (file
  name and rounded length, nothing else) for each file that was decoded and stored, in
  input order: the decodable files are a subsequence of the input, the stored ones are
  the decodable ones minus those whose insert failed, and a file that fails either step
  is left out while the loop goes on. When no insert fails the entries are exactly the
  decodable files; when no file can be decoded the list is empty and the answer is
  still a success.
\<close>

theorem accepted_batch_skips_failed_files:
  assumes "validate_payload payload = Inr True"
  shows "fst (post_process_audio payload db) =
           \<lparr>status_code = 200,
             content = StatusProcessed ''success''
                         (map entry_of (stored db (audio_files payload)))\<rparr> \<and>
         stored db (audio_files payload) =
           keep_stored (decodable (audio_files payload)) (insert_faults db) \<and>
         subseq (stored db (audio_files payload)) (decodable (audio_files payload)) \<and>
         subseq (map fst (decodable (audio_files payload))) (audio_files payload) \<and>
         (insert_faults db = [] \<longrightarrow>
            stored db (audio_files payload) = decodable (audio_files payload)) \<and>
         ((\<forall>f \<in> set (audio_files payload). isl (decode_audio (encoded_audio f))) \<longrightarrow>
            fst (post_process_audio payload db) =
              \<lparr>status_code = 200, content = StatusProcessed ''success'' []\<rparr>)"
  using assms
  by (auto simp: post_process_audio_accepted stored_def subseq_keep_stored subseq_decodable
        decodable_none)

theorem accepted_batch_skips_failed_files_witness:
  "validate_payload payload_three = Inr True \<and>
   fst (post_process_audio payload_three db_second_insert_fails) =
     \<lparr>status_code = 200,
       content = StatusProcessed ''success''
                   [\<lparr>pf_file_name = py_lit ''a.wav'', pf_length_seconds = 0\<rparr>]\<rparr> \<and>
   validate_payload payload_odd = Inr True \<and>
   fst (post_process_audio payload_odd empty_db) =
     \<lparr>status_code = 200, content = StatusProcessed ''success'' []\<rparr>"
proof -
  have h3: "validate_payload payload_three = Inr True"
    unfolding payload_three_def file_one_byte_def mk_payload_def mk_file_def by code_simp
  have s3: "map entry_of (stored db_second_insert_fails (audio_files payload_three)) =
              [\<lparr>pf_file_name = py_lit ''a.wav'', pf_length_seconds = 0\<rparr>]"
    unfolding payload_three_def file_one_byte_def mk_payload_def mk_file_def
      db_second_insert_fails_def
    by code_simp
  have h1: "validate_payload payload_odd = Inr True"
    unfolding payload_odd_def file_one_byte_def mk_payload_def mk_file_def by code_simp
  have s1: "map entry_of (stored empty_db (audio_files payload_odd)) = []"
    unfolding payload_odd_def file_one_byte_def mk_payload_def mk_file_def empty_db_def
    by code_simp
  from accepted_batch_skips_failed_files [OF h3, of db_second_insert_fails]
    accepted_batch_skips_failed_files [OF h1, of empty_db] h3 s3 h1 s1
  show ?thesis by simp
qed

text \<open>
  C4, as claimed: a payload of odd length is cut to whole samples and gets a length.
  The one-byte payload of \<^term>\<open>file_one_byte\<close> is refused by
  \<^verbatim>\<open>np.frombuffer\<close>, and the batch is answered with an empty list and stores nothing.
\<close>

theorem odd_payload_counterexample:
  "b64decode (encoded_audio file_one_byte) False = Inr [65] \<and>
   validate_payload payload_odd = Inr True \<and>
   decode_audio (encoded_audio file_one_byte) =
     Inl (ValueError ''buffer size must be a multiple of element size'') \<and>
   post_process_audio payload_odd empty_db =
     (\<lparr>status_code = 200, content = StatusProcessed ''success'' []\<rparr>, empty_db)"
  unfolding payload_odd_def file_one_byte_def mk_payload_def mk_file_def empty_db_def
  by code_simp

text \<open>
  C4, amended. When the decoded payload of a file has odd length,
  \<^verbatim>\<open>np.frombuffer\<close> raises \<^verbatim>\<open>ValueError\<close>: no length is computed, nothing is stored,
  and the loop goes on with the next file, leaving the file out of the answer.
\<close>

theorem odd_payload_is_skipped:
  assumes "b64decode (encoded_audio f) False = Inr raw" and "odd (length raw)"
  shows "frombuffer raw = Inl (ValueError ''buffer size must be a multiple of element size'') \<and>
         process_file payload f db =
           (Inl (ValueError ''buffer size must be a multiple of element size''), db) \<and>
         process_loop payload (f # rest) acc db = process_loop payload rest acc db"
  using assms
  by (simp add: process_file_undecodable [OF decode_audio_odd] frombuffer_def
      odd_iff_mod_2_eq_one)

theorem odd_payload_is_skipped_witness:
  "b64decode (encoded_audio file_one_byte) False = Inr [65] \<and>
   odd (length [65 :: byte]) \<and>
   process_file payload_odd file_one_byte empty_db =
     (Inl (ValueError ''buffer size must be a multiple of element size''), empty_db)"
proof -
  have h: "b64decode (encoded_audio file_one_byte) False = Inr [65]"
    unfolding file_one_byte_def mk_file_def by code_simp
  have o: "odd (length [65 :: byte])" by simp
  from odd_payload_is_skipped [OF h o, of payload_odd empty_db] h o show ?thesis by simp
qed

lemma map_fst_decodable:
  "map fst (decodable fs) = filter (\<lambda>f. \<not> isl (decode_audio (encoded_audio f))) fs"
  by (induction fs) (auto simp: decodable_Cons split: sum.splits)

lemma rows_of_files:
  "\<forall>x \<in> set st. decode_audio (encoded_audio (fst x)) = Inr (snd x) \<Longrightarrow>
   list_all2 (\<lambda>f row. col_file_name row = file_name f \<and>
                decode_audio (encoded_audio f) = Inr (col_length_seconds row))
     (map fst st) (numbered_rows payload n st)"
  by (induction payload n st rule: numbered_rows.induct) simp_all

lemma entries_of_rows:
  "list_all2 (\<lambda>row entry. pf_file_name entry = col_file_name row \<and>
                pf_length_seconds entry = py_round (col_length_seconds row) 2)
     (numbered_rows payload n st) (map entry_of st)"
  by (induction payload n st rule: numbered_rows.induct) simp_all

text \<open>
  C5. In an accepted batch, let \<open>kept\<close> be the files that are decoded and stored: a
  subsequence of the input (all decodable files when no insert fails). The rows appended
  to the table correspond to \<open>kept\<close> one to one, position by position, and the entries
  of \<^verbatim>\<open>processed_files\<close> correspond to the rows in the same way. The row of a file
  carries that file's name and, that file's own payload decoding to \<open>2 * N\<close> bytes,
  that is \<open>N\<close> samples, the float \<^verbatim>\<open>N / 4000\<close> as it is; the entry of a row carries
  the same name and \<^verbatim>\<open>round\<close> of the row's float to 2 decimals.
\<close>

theorem stored_length_unrounded_reported_rounded:
  assumes "validate_payload payload = Inr True"
    and "post_process_audio payload db = (response, db')"
  shows "\<exists>kept new.
           kept = map fst (keep_stored (decodable (audio_files payload)) (insert_faults db)) \<and>
           subseq kept (audio_files payload) \<and>
           (insert_faults db = [] \<longrightarrow>
              kept = filter (\<lambda>f. \<not> isl (decode_audio (encoded_audio f)))
                       (audio_files payload)) \<and>
           audio_metadata db' = audio_metadata db @ new \<and>
           list_all2
             (\<lambda>f row. col_file_name row = file_name f \<and>
                (\<exists>raw samples.
                   b64decode (encoded_audio f) False = Inr raw \<and>
                   frombuffer raw = Inr samples \<and> length raw = 2 * length samples \<and>
                   int_true_div (int (length samples)) 4000 = Inr (col_length_seconds row) \<and>
                   col_length_seconds row = binary64_of_rat (of_nat (length samples) / 4000)))
             kept new \<and>
           list_all2
             (\<lambda>row entry. pf_file_name entry = col_file_name row \<and>
                pf_length_seconds entry = py_round (col_length_seconds row) 2)
             new (processed_files_of response)"
proof -
  let ?fs = "audio_files payload"
  let ?st = "stored db ?fs"
  let ?kept = "map fst ?st"
  let ?new = "new_rows payload db"
  from assms have r: "processed_files_of response = map entry_of ?st"
    and d: "audio_metadata db' = audio_metadata db @ ?new"
    by (auto simp: post_process_audio_accepted processed_files_of_def)
  have k: "?kept = map fst (keep_stored (decodable ?fs) (insert_faults db))"
    by (simp add: stored_def)
  have "subseq ?kept (map fst (decodable ?fs))"
    unfolding stored_def by (rule subseq_map) (rule subseq_keep_stored)
  then have sub: "subseq ?kept ?fs"
    using subseq_decodable [of ?fs] by (rule subseq_order.trans)
  have nofault: "insert_faults db = [] \<longrightarrow>
      ?kept = filter (\<lambda>f. \<not> isl (decode_audio (encoded_audio f))) ?fs"
    by (simp add: stored_def map_fst_decodable)
  have "\<forall>x \<in> set ?st. decode_audio (encoded_audio (fst x)) = Inr (snd x)"
    using stored_sound [of _ _ db ?fs] by auto
  then have "list_all2 (\<lambda>f row. col_file_name row = file_name f \<and>
                decode_audio (encoded_audio f) = Inr (col_length_seconds row))
     ?kept ?new"
    unfolding new_rows_def by (rule rows_of_files)
  then have rows: "list_all2
             (\<lambda>f row. col_file_name row = file_name f \<and>
                (\<exists>raw samples.
                   b64decode (encoded_audio f) False = Inr raw \<and>
                   frombuffer raw = Inr samples \<and> length raw = 2 * length samples \<and>
                   int_true_div (int (length samples)) 4000 = Inr (col_length_seconds row) \<and>
                   col_length_seconds row = binary64_of_rat (of_nat (length samples) / 4000)))
             ?kept ?new"
  proof (rule list_all2_mono, goal_cases)
    case (1 f row)
    then have n: "col_file_name row = file_name f"
      and dec: "decode_audio (encoded_audio f) = Inr (col_length_seconds row)" by auto
    from decode_audio_Inr [OF dec] n show ?case by (auto simp: int_true_div_def)
  qed
  have entries: "list_all2
             (\<lambda>row entry. pf_file_name entry = col_file_name row \<and>
                pf_length_seconds entry = py_round (col_length_seconds row) 2)
             ?new (processed_files_of response)"
    unfolding new_rows_def r by (rule entries_of_rows)
  from k sub nofault d rows entries show ?thesis by blast
qed

text \<open>
  The witness has a clip of twenty samples (0.005 seconds stored, 0.01 reported) and two
  files of one name with two and four samples, whose rows keep their own lengths.
\<close>

theorem stored_length_unrounded_reported_rounded_witness:
  "validate_payload payload_twenty_samples = Inr True \<and>
   post_process_audio payload_twenty_samples empty_db =
     (\<lparr>status_code = 200,
       content = StatusProcessed ''success''
         [\<lparr>pf_file_name = py_lit ''clip.wav'',
           pf_length_seconds = 5764607523034235 / 576460752303423488\<rparr>]\<rparr>,
      \<lparr>audio_metadata =
         [\<lparr>col_id = 1, col_session_id = py_lit ''test-session'',
           col_timestamp = py_lit ''2025-01-02T12:00:00Z'', col_file_name = py_lit ''clip.wav'',
           col_length_seconds = 5764607523034235 / 1152921504606846976\<rparr>],
       sqlite_sequence = 1, insert_faults = []\<rparr>) \<and>
   int_true_div 20 4000 = Inr (5764607523034235 / 1152921504606846976) \<and>
   py_round (5764607523034235 / 1152921504606846976) 2 =
     5764607523034235 / 576460752303423488 \<and>
   validate_payload payload_same_name = Inr True \<and>
   map col_length_seconds
     (audio_metadata (snd (post_process_audio payload_same_name empty_db))) =
     [1152921504606847 / 2305843009213693952, 1152921504606847 / 1152921504606846976] \<and>
   int_true_div 2 4000 = Inr (1152921504606847 / 2305843009213693952) \<and>
   int_true_div 4 4000 = Inr (1152921504606847 / 1152921504606846976)"
proof -
  have h: "validate_payload payload_twenty_samples = Inr True"
    unfolding payload_twenty_samples_def mk_payload_def mk_file_def by code_simp
  have p: "post_process_audio payload_twenty_samples empty_db =
     (\<lparr>status_code = 200,
       content = StatusProcessed ''success''
         [\<lparr>pf_file_name = py_lit ''clip.wav'',
           pf_length_seconds = 5764607523034235 / 576460752303423488\<rparr>]\<rparr>,
      \<lparr>audio_metadata =
         [\<lparr>col_id = 1, col_session_id = py_lit ''test-session'',
           col_timestamp = py_lit ''2025-01-02T12:00:00Z'', col_file_name = py_lit ''clip.wav'',
           col_length_seconds = 5764607523034235 / 1152921504606846976\<rparr>],
       sqlite_sequence = 1, insert_faults = []\<rparr>)"
    unfolding payload_twenty_samples_def mk_payload_def mk_file_def empty_db_def
    by code_simp
  have d: "int_true_div 20 4000 = Inr (5764607523034235 / 1152921504606846976)"
    by code_simp
  have r: "py_round (5764607523034235 / 1152921504606846976) 2 =
             5764607523034235 / 576460752303423488"
    by code_simp
  have h2: "validate_payload payload_same_name = Inr True"
    unfolding payload_same_name_def mk_payload_def mk_file_def by code_simp
  have p2: "map col_length_seconds
              (audio_metadata (snd (post_process_audio payload_same_name empty_db))) =
     [1152921504606847 / 2305843009213693952, 1152921504606847 / 1152921504606846976]"
    unfolding payload_same_name_def mk_payload_def mk_file_def empty_db_def by code_simp
  have d2: "int_true_div 2 4000 = Inr (1152921504606847 / 2305843009213693952)"
    by code_simp
  have d4: "int_true_div 4 4000 = Inr (1152921504606847 / 1152921504606846976)"
    by code_simp
  from stored_length_unrounded_reported_rounded [OF h p] h p d r h2 p2 d2 d4 show ?thesis
    by (intro conjI)
qed

text \<open>
  C8. A file whose payload decodes to no byte at all is not a decode error: the decoder
  gives the length 0.0. Unless the insert itself fails, a row with length 0.0 is
  appended and the entry of the answer carries 0.0; the only way for such a file to be
  skipped is the storage error of a failed insert.
\<close>

theorem empty_payload_has_length_zero:
  assumes "b64decode (encoded_audio f) False = Inr []"
  shows "frombuffer [] = Inr [] \<and>
         calculate_audio_length [] sample_rate = Inr 0 \<and>
         decode_audio (encoded_audio f) = Inr 0 \<and>
         (\<not> next_insert_fails db \<longrightarrow>
            process_file payload f db =
              (Inr \<lparr>pf_file_name = file_name f, pf_length_seconds = 0\<rparr>,
               db\<lparr>audio_metadata := audio_metadata db @
                     [\<lparr>col_id = Suc (sqlite_sequence db), col_session_id = session_id payload,
                       col_timestamp = timestamp payload, col_file_name = file_name f,
                       col_length_seconds = 0\<rparr>],
                  sqlite_sequence := Suc (sqlite_sequence db),
                  insert_faults := tl (insert_faults db)\<rparr>)) \<and>
         (next_insert_fails db \<longrightarrow>
            process_file payload f db =
              (Inl (HTTPException 500 ''Failed to store audio metadata''),
               db\<lparr>insert_faults := tl (insert_faults db)\<rparr>))"
proof -
  from assms have d: "decode_audio (encoded_audio f) = Inr 0" by (rule decode_audio_empty)
  have "frombuffer [] = Inr []" "calculate_audio_length [] sample_rate = Inr 0"
    by (simp_all add: frombuffer_def calculate_audio_length_def int_true_div_def sample_rate_def)
  with d show ?thesis
    by (simp add: process_file_stored [OF d] process_file_fault [OF d] entry_of_def)
qed

theorem empty_payload_has_length_zero_witness:
  "b64decode (encoded_audio file_empty) False = Inr [] \<and>
   \<not> next_insert_fails empty_db \<and>
   decode_audio (encoded_audio file_empty) = Inr 0 \<and>
   process_file payload_odd file_empty empty_db =
     (Inr \<lparr>pf_file_name = py_lit ''silence.wav'', pf_length_seconds = 0\<rparr>,
      \<lparr>audio_metadata =
         [\<lparr>col_id = 1, col_session_id = py_lit ''test-session'',
           col_timestamp = py_lit ''2025-01-02T12:00:00Z'', col_file_name = py_lit ''silence.wav'',
           col_length_seconds = 0\<rparr>],
       sqlite_sequence = 1, insert_faults = []\<rparr>)"
proof -
  have h: "b64decode (encoded_audio file_empty) False = Inr []"
    unfolding file_empty_def mk_file_def by code_simp
  have n: "\<not> next_insert_fails empty_db"
    by (simp add: next_insert_fails_def empty_db_def)
  from empty_payload_has_length_zero [OF h, of empty_db payload_odd] h n show ?thesis
    by (simp add: empty_db_def payload_odd_def mk_payload_def file_empty_def mk_file_def)
qed

text \<open>
  C10. A request only appends to the table: the rows that were there stay as they are,
  in place, and each entry of \<^verbatim>\<open>processed_files\<close> has exactly one new row, with the
  session id and the timestamp of the request and the name of its file. Sending the same
  batch again appends a second set of rows under fresh ids; when no insert fails the
  second set repeats the first, column by column, and nothing is deduplicated.
\<close>

theorem records_append_only_not_deduplicated:
  assumes "post_process_audio payload db = (r1, db1)"
    and "post_process_audio payload db1 = (r2, db2)"
  shows "\<exists>new1 new2.
           audio_metadata db1 = audio_metadata db @ new1 \<and>
           audio_metadata db2 = audio_metadata db @ new1 @ new2 \<and>
           map col_file_name new1 = map pf_file_name (processed_files_of r1) \<and>
           map col_file_name new2 = map pf_file_name (processed_files_of r2) \<and>
           (\<forall>row \<in> set (new1 @ new2).
              col_session_id row = session_id payload \<and>
              col_timestamp row = timestamp payload \<and>
              col_file_name row \<in> file_name ` set (audio_files payload)) \<and>
           map col_id (new1 @ new2) =
             [Suc (sqlite_sequence db) ..< Suc (sqlite_sequence db) + length (new1 @ new2)] \<and>
           (insert_faults db = [] \<longrightarrow> map without_id new2 = map without_id new1)"
proof (cases "validate_payload payload = Inr True")
  case False
  from post_process_audio_not_accepted [OF False]
  have "snd (post_process_audio payload db) = db"
    and "processed_files_of (fst (post_process_audio payload db)) = []"
    and "snd (post_process_audio payload db1) = db1"
    and "processed_files_of (fst (post_process_audio payload db1)) = []"
    by auto
  with assms have "db1 = db" "db2 = db" "processed_files_of r1 = []" "processed_files_of r2 = []"
    by auto
  then show ?thesis by simp
next
  case True
  let ?fs = "audio_files payload"
  let ?new1 = "new_rows payload db" and ?new2 = "new_rows payload db1"
  from True assms(1) have 1: "audio_metadata db1 = audio_metadata db @ ?new1"
    "processed_files_of r1 = map entry_of (stored db ?fs)"
    "sqlite_sequence db1 = sqlite_sequence db + length (stored db ?fs)"
    "insert_faults db1 = drop (length (decodable ?fs)) (insert_faults db)"
    by (auto simp: post_process_audio_accepted processed_files_of_def)
  from True assms(2) have 2: "audio_metadata db2 = audio_metadata db1 @ ?new2"
    "processed_files_of r2 = map entry_of (stored db1 ?fs)"
    by (auto simp: post_process_audio_accepted processed_files_of_def)
  have names: "map col_file_name ?new1 = map pf_file_name (processed_files_of r1)"
    "map col_file_name ?new2 = map pf_file_name (processed_files_of r2)"
    using 1 2 by (simp_all add: new_rows_def rows_names comp_def)
  have fields: "\<forall>row \<in> set (?new1 @ ?new2).
              col_session_id row = session_id payload \<and>
              col_timestamp row = timestamp payload \<and>
              col_file_name row \<in> file_name ` set ?fs"
  proof
    fix row assume "row \<in> set (?new1 @ ?new2)"
    then obtain d where "row \<in> set (new_rows payload d)" by auto
    from rows_fields [OF this [unfolded new_rows_def]] stored_sound [of _ _ d ?fs]
    show "col_session_id row = session_id payload \<and>
              col_timestamp row = timestamp payload \<and>
              col_file_name row \<in> file_name ` set ?fs"
      by auto
  qed
  have ids: "map col_id (?new1 @ ?new2) =
             [Suc (sqlite_sequence db) ..< Suc (sqlite_sequence db) + length (?new1 @ ?new2)]"
  proof -
    define a where "a = Suc (sqlite_sequence db)"
    define m where "m = length (stored db ?fs)"
    define n where "n = length (stored db1 ?fs)"
    have l1: "length ?new1 = m" and l2: "length ?new2 = n"
      by (simp_all add: new_rows_def m_def n_def)
    have i1: "map col_id ?new1 = [a ..< a + m]"
      by (simp add: new_rows_def rows_ids a_def m_def)
    have i2: "map col_id ?new2 = [a + m ..< a + m + n]"
      using 1(3) by (simp add: new_rows_def rows_ids a_def m_def n_def)
    have "[a ..< a + m + n] = [a ..< a + m] @ [a + m ..< a + m + n]"
      by (rule upt_add_eq_append) simp
    with i1 i2 have "map col_id (?new1 @ ?new2) = [a ..< a + (m + n)]"
      by (simp only: map_append add.assoc)
    then show ?thesis
      by (simp only: length_append l1 l2 a_def)
  qed
  have same: "insert_faults db = [] \<longrightarrow> map without_id ?new2 = map without_id ?new1"
    using 1(4) by (auto simp: new_rows_def rows_without_id stored_def)
  from 1 2 names fields ids same show ?thesis
    by (intro exI [of _ ?new1] exI [of _ ?new2]) simp
qed

theorem records_append_only_not_deduplicated_witness:
  "post_process_audio payload_two empty_db =
     (fst (post_process_audio payload_two empty_db),
      snd (post_process_audio payload_two empty_db)) \<and>
   map col_id
     (audio_metadata
        (snd (post_process_audio payload_two (snd (post_process_audio payload_two empty_db))))) =
     [1, 2, 3, 4] \<and>
   map col_file_name
     (audio_metadata
        (snd (post_process_audio payload_two (snd (post_process_audio payload_two empty_db))))) =
     [py_lit ''a.wav'', py_lit ''b.wav'', py_lit ''a.wav'', py_lit ''b.wav'']"
proof -
  have c: "map col_id
     (audio_metadata
        (snd (post_process_audio payload_two (snd (post_process_audio payload_two empty_db))))) =
     [1, 2, 3, 4]"
    unfolding payload_two_def mk_payload_def mk_file_def empty_db_def by code_simp
  have n: "map col_file_name
     (audio_metadata
        (snd (post_process_audio payload_two (snd (post_process_audio payload_two empty_db))))) =
     [py_lit ''a.wav'', py_lit ''b.wav'', py_lit ''a.wav'', py_lit ''b.wav'']"
    unfolding payload_two_def mk_payload_def mk_file_def empty_db_def by code_simp
  have e1: "post_process_audio payload_two empty_db =
     (fst (post_process_audio payload_two empty_db),
      snd (post_process_audio payload_two empty_db))"
    by simp
  have e2: "post_process_audio payload_two (snd (post_process_audio payload_two empty_db)) =
     (fst (post_process_audio payload_two (snd (post_process_audio payload_two empty_db))),
      snd (post_process_audio payload_two (snd (post_process_audio payload_two empty_db))))"
    by simp
  from records_append_only_not_deduplicated [OF e1 e2] c n e1 show ?thesis
    by (intro conjI)
qed

end
